theory Spec2Isabelle
  imports Complex_Main
begin

section \<open>Numbers\<close>

text \<open>
  Python floats are modelled as real numbers: every finite float is the real it denotes,
  and arithmetic is exact. Where a value can be missing (pandas writes NaN into the
  positions of a rolling mean that have too little history), the model uses
  \<open>real option\<close> with \<open>None\<close> for NaN; see the detector below. Equity values
  come from \<open>float(acct.equity)\<close> and are finite reals.
\<close>

section \<open>The persisted risk state (strategy.py, main.py)\<close>

text \<open>
  The risk state is the dictionary that \<open>load_risk_state\<close> returns and
  \<open>save_risk_state\<close> writes to \<open>risk_state.json\<close>. Every writer starts from
  the dictionary it has loaded, so the four keys of the default dictionary are always
  present; the dictionary is a record here. \<open>None\<close> in a numeric field is JSON's
  \<open>null\<close>.
\<close>

record risk_state =
  peak_equity :: "real option"
  auto_paused :: bool
  last_equity :: "real option"
  user_paused :: bool

text \<open>
  The file on disk: \<open>None\<close> when \<open>risk_state.json\<close> does not exist or cannot
  be parsed (both make \<open>load_risk_state\<close> fall back to the default dictionary),
  \<open>Some s\<close> when it holds the dictionary \<open>s\<close>.
\<close>

type_synonym risk_file = "risk_state option"

definition default_risk_state :: risk_state where
  "default_risk_state =
     \<lparr>peak_equity = None, auto_paused = False, last_equity = None, user_paused = False\<rparr>"

definition load_risk_state :: "risk_file \<Rightarrow> risk_state" where
  "load_risk_state file = (case file of None \<Rightarrow> default_risk_state | Some s \<Rightarrow> s)"

definition save_risk_state :: "risk_state \<Rightarrow> risk_file" where
  "save_risk_state state = Some state"

text \<open>\<open>MAX_DD_PCT = 0.05\<close>, the configured drawdown threshold of main.py.\<close>

definition MAX_DD_PCT :: real where
  "MAX_DD_PCT = 5 / 100"

text \<open>
  \<open>update_drawdown_and_guardrail(acct_equity)\<close>, the operation the specification calls
  \<open>observe\<close>. The global \<open>MAX_DD_PCT\<close> is the first parameter, the file is
  threaded through: the result is the returned triple \<open>(auto_paused, dd_pct, peak)\<close>
  and the file as \<open>save_risk_state\<close> leaves it.
\<close>

definition update_drawdown_and_guardrail ::
    "real \<Rightarrow> real \<Rightarrow> risk_file \<Rightarrow> (bool \<times> real \<times> real) \<times> risk_file" where
  "update_drawdown_and_guardrail max_dd_pct acct_equity file =
     (let state = load_risk_state file;
          eq = acct_equity;
          peak = (case peak_equity state of
                    None \<Rightarrow> eq
                  | Some p \<Rightarrow> if eq > p then eq else p);
          dd_pct = (if peak = 0 then 0 else max 0 ((peak - eq) / peak));
          paused = (if dd_pct \<ge> max_dd_pct then True else auto_paused state);
          state' = state\<lparr>peak_equity := Some peak, last_equity := Some eq,
                         auto_paused := paused\<rparr>
      in ((paused, dd_pct, peak), save_risk_state state'))"


definition is_user_paused :: "risk_file \<Rightarrow> bool" where
  "is_user_paused file = user_paused (load_risk_state file)"




text \<open>A sequence of \<open>observe\<close> calls: the file after all of them, and the list of
  files after each call.\<close>

fun observe_all :: "real \<Rightarrow> real list \<Rightarrow> risk_file \<Rightarrow> risk_file" where
  "observe_all thr [] file = file"
| "observe_all thr (e # es) file =
     observe_all thr es (snd (update_drawdown_and_guardrail thr e file))"

fun observe_trace :: "real \<Rightarrow> real list \<Rightarrow> risk_file \<Rightarrow> risk_file list" where
  "observe_trace thr [] file = [file]"
| "observe_trace thr (e # es) file =
     file # observe_trace thr es (snd (update_drawdown_and_guardrail thr e file))"

text \<open>The order on peaks in which an absent peak is below every number.\<close>

fun peak_le :: "real option \<Rightarrow> real option \<Rightarrow> bool" where
  "peak_le None _ = True"
| "peak_le (Some a) None = False"
| "peak_le (Some a) (Some b) = (a \<le> b)"


definition negative_or_absent :: "real option \<Rightarrow> bool" where
  "negative_or_absent p = (case p of None \<Rightarrow> True | Some x \<Rightarrow> x < 0)"

section \<open>Floats that may be NaN, and Python's errors\<close>

text \<open>
  A pandas cell: \<open>Some x\<close> is the finite float \<open>x\<close>, \<open>None\<close> is NaN. Every
  comparison with NaN is false and every arithmetic operation on NaN gives NaN, as in
  IEEE arithmetic. A division by zero gives no finite number either; the detector never
  divides by less than \<open>eps\<close>.
\<close>

type_synonym pyfloat = "real option"

definition isna :: "pyfloat \<Rightarrow> bool" where
  "isna x = (x = None)"

fun flt :: "pyfloat \<Rightarrow> pyfloat \<Rightarrow> bool" where
  "flt (Some x) (Some y) = (x < y)"
| "flt _ _ = False"

fun fle :: "pyfloat \<Rightarrow> pyfloat \<Rightarrow> bool" where
  "fle (Some x) (Some y) = (x \<le> y)"
| "fle _ _ = False"

definition fgt :: "pyfloat \<Rightarrow> pyfloat \<Rightarrow> bool" where
  "fgt a b = flt b a"

definition fge :: "pyfloat \<Rightarrow> pyfloat \<Rightarrow> bool" where
  "fge a b = fle b a"

fun fsub :: "pyfloat \<Rightarrow> pyfloat \<Rightarrow> pyfloat" where
  "fsub (Some x) (Some y) = Some (x - y)"
| "fsub _ _ = None"

fun fabs :: "pyfloat \<Rightarrow> pyfloat" where
  "fabs (Some x) = Some \<bar>x\<bar>"
| "fabs None = None"

fun fdiv :: "pyfloat \<Rightarrow> pyfloat \<Rightarrow> pyfloat" where
  "fdiv (Some x) (Some y) = (if y = 0 then None else Some (x / y))"
| "fdiv _ _ = None"

text \<open>Python's \<open>max(a, b)\<close> keeps \<open>a\<close> unless \<open>b > a\<close>.\<close>

definition py_max :: "pyfloat \<Rightarrow> pyfloat \<Rightarrow> pyfloat" where
  "py_max a b = (if fgt b a then b else a)"

datatype py_error = IndexError | KeyError

text \<open>\<open>series.iloc[i]\<close>: a negative position counts from the end, a position outside
  the series raises IndexError.\<close>

definition iloc :: "'a list \<Rightarrow> int \<Rightarrow> py_error + 'a" where
  "iloc xs i =
     (let n = int (length xs);
          j = (if i < 0 then i + n else i)
      in if 0 \<le> j \<and> j < n then Inr (xs ! nat j) else Inl IndexError)"

text \<open>The text of a natural number in an f-string, \<open>f"{n}"\<close>: its decimal digits.\<close>

definition digit_char :: "nat \<Rightarrow> char" where
  "digit_char d = ''0123456789'' ! d"

function str_nat :: "nat \<Rightarrow> string" where
  "str_nat n = (if n < 10 then [digit_char n]
                else str_nat (n div 10) @ [digit_char (n mod 10)])"
  by pat_completeness auto
termination
  by (relation "measure (\<lambda>n. n)") auto

declare str_nat.simps [simp del]

text \<open>The em dash of the reason strings, as its three UTF-8 bytes.\<close>

definition em_dash :: string where
  "em_dash = [CHR 0xE2, CHR 0x80, CHR 0x94]"

section \<open>Moving averages and the crossover detector (strategy.py)\<close>

text \<open>
  A data frame is its columns by name; the detector reads \<open>close\<close> and the two
  moving-average columns. \<open>df[name]\<close> raises KeyError for a column that is not there.
\<close>

type_synonym dataframe = "string \<rightharpoonup> pyfloat list"

definition column :: "dataframe \<Rightarrow> string \<Rightarrow> py_error + pyfloat list" where
  "column df name = (case df name of None \<Rightarrow> Inl KeyError | Some c \<Rightarrow> Inr c)"

text \<open>
  \<open>series.rolling(w).mean()\<close> of pandas, which is library code: position \<open>i\<close> holds
  the mean of the \<open>w\<close> values ending at \<open>i\<close> when there are \<open>w\<close> of them and
  none is NaN, and NaN otherwise. A window of size 0 holds no value, so its mean is NaN
  everywhere. Window sizes are natural numbers (pandas rejects a negative one).
\<close>

definition window_mean :: "nat \<Rightarrow> pyfloat list \<Rightarrow> nat \<Rightarrow> pyfloat" where
  "window_mean w xs i =
     (if 0 < w \<and> w \<le> i + 1
      then (let win = take w (drop (i + 1 - w) xs)
            in if list_all (\<lambda>v. \<not> isna v) win
               then Some (sum_list (map the win) / real w)
               else None)
      else None)"

definition rolling_mean :: "nat \<Rightarrow> pyfloat list \<Rightarrow> pyfloat list" where
  "rolling_mean w xs = map (window_mean w xs) [0..<length xs]"

definition compute_smas :: "dataframe \<Rightarrow> nat \<Rightarrow> nat \<Rightarrow> py_error + dataframe" where
  "compute_smas df fast slow =
     (case column df ''close'' of
        Inl e \<Rightarrow> Inl e
      | Inr cl \<Rightarrow>
          Inr (df(''SMA'' @ str_nat fast \<mapsto> rolling_mean fast cl,
                  ''SMA'' @ str_nat slow \<mapsto> rolling_mean slow cl)))"

definition eps :: real where
  "eps = 1 / 10 ^ 9"

definition latest_signal_reason ::
    "dataframe \<Rightarrow> nat \<Rightarrow> nat \<Rightarrow> py_error + (string \<times> string \<times> pyfloat)" where
  "latest_signal_reason df fast slow =
     (let fcol = ''SMA'' @ str_nat fast; scol = ''SMA'' @ str_nat slow
      in case column df scol of Inl e \<Rightarrow> Inl e | Inr sc \<Rightarrow>
         case iloc sc (- 1) of Inl e \<Rightarrow> Inl e | Inr last_slow \<Rightarrow>
         if isna last_slow then Inr (''none'', ''Not enough data'', Some 0)
         else
         case column df fcol of Inl e \<Rightarrow> Inl e | Inr fc \<Rightarrow>
         case iloc fc (- 2) of Inl e \<Rightarrow> Inl e | Inr prev_fast \<Rightarrow>
         case iloc sc (- 2) of Inl e \<Rightarrow> Inl e | Inr prev_slow \<Rightarrow>
         case iloc fc (- 1) of Inl e \<Rightarrow> Inl e | Inr curr_fast \<Rightarrow>
         case iloc sc (- 1) of Inl e \<Rightarrow> Inl e | Inr curr_slow \<Rightarrow>
         (let confidence = fdiv (fabs (fsub curr_fast curr_slow))
                                (py_max (fabs curr_slow) (Some eps))
          in if fle prev_fast prev_slow \<and> fgt curr_fast curr_slow
             then Inr (''buy'',
                       ''BUY '' @ em_dash @ '' SMA('' @ str_nat fast
                         @ '') crossed above SMA('' @ str_nat slow @ '')'',
                       confidence)
             else if fge prev_fast prev_slow \<and> flt curr_fast curr_slow
             then Inr (''sell'',
                       ''SELL '' @ em_dash @ '' SMA('' @ str_nat fast
                         @ '') crossed below SMA('' @ str_nat slow @ '')'',
                       confidence)
             else (let regime = (if fgt curr_fast curr_slow then ''above''
                                 else if flt curr_fast curr_slow then ''below''
                                 else ''equal'')
                   in Inr (''none'',
                           ''HOLD '' @ em_dash @ '' SMA('' @ str_nat fast @ '') is '' @ regime
                             @ '' SMA('' @ str_nat slow @ ''); no crossover'',
                           confidence))))"

text \<open>\<open>sma_cross_signal\<close> computes its own columns on a copy of the frame; its result is
  \<open>None\<close>, \<open>"buy"\<close>, \<open>"sell"\<close> or \<open>"hold"\<close>.\<close>

definition sma_cross_signal :: "dataframe \<Rightarrow> nat \<Rightarrow> nat \<Rightarrow> py_error + string option" where
  "sma_cross_signal df fast slow =
     (case column df ''close'' of Inl e \<Rightarrow> Inl e | Inr cl \<Rightarrow>
      let df = df(''sma_'' @ str_nat fast \<mapsto> rolling_mean fast cl);
          df = df(''sma_'' @ str_nat slow \<mapsto> rolling_mean slow cl)
      in case column df (''sma_'' @ str_nat slow) of Inl e \<Rightarrow> Inl e | Inr sc \<Rightarrow>
         case iloc sc (- 1) of Inl e \<Rightarrow> Inl e | Inr last_slow \<Rightarrow>
         if isna last_slow then Inr None
         else
         case column df (''sma_'' @ str_nat fast) of Inl e \<Rightarrow> Inl e | Inr fc \<Rightarrow>
         case iloc fc (- 2) of Inl e \<Rightarrow> Inl e | Inr prev_fast \<Rightarrow>
         case iloc sc (- 2) of Inl e \<Rightarrow> Inl e | Inr prev_slow \<Rightarrow>
         case iloc fc (- 1) of Inl e \<Rightarrow> Inl e | Inr curr_fast \<Rightarrow>
         case iloc sc (- 1) of Inl e \<Rightarrow> Inl e | Inr curr_slow \<Rightarrow>
         if fle prev_fast prev_slow \<and> fgt curr_fast curr_slow then Inr (Some ''buy'')
         else if fge prev_fast prev_slow \<and> flt curr_fast curr_slow then Inr (Some ''sell'')
         else Inr (Some ''hold''))"

definition describe_sma_signal ::
    "dataframe \<Rightarrow> nat \<Rightarrow> nat \<Rightarrow> py_error + (string \<times> pyfloat)" where
  "describe_sma_signal df fast slow =
     (let fcol = ''sma_'' @ str_nat fast; scol = ''sma_'' @ str_nat slow
      in case column df scol of Inl e \<Rightarrow> Inl e | Inr sc \<Rightarrow>
         case iloc sc (- 1) of Inl e \<Rightarrow> Inl e | Inr last_slow \<Rightarrow>
         if isna last_slow then Inr (''Not enough data'', Some 0)
         else
         case column df fcol of Inl e \<Rightarrow> Inl e | Inr fc \<Rightarrow>
         case iloc fc (- 2) of Inl e \<Rightarrow> Inl e | Inr prev_fast \<Rightarrow>
         case iloc sc (- 2) of Inl e \<Rightarrow> Inl e | Inr prev_slow \<Rightarrow>
         case iloc fc (- 1) of Inl e \<Rightarrow> Inl e | Inr curr_fast \<Rightarrow>
         case iloc sc (- 1) of Inl e \<Rightarrow> Inl e | Inr curr_slow \<Rightarrow>
         (let confidence = fdiv (fabs (fsub curr_fast curr_slow))
                                (py_max (fabs curr_slow) (Some eps))
          in if fle prev_fast prev_slow \<and> fgt curr_fast curr_slow
             then Inr (''BUY '' @ em_dash @ '' SMA('' @ str_nat fast
                         @ '') crossed above SMA('' @ str_nat slow @ '')'',
                       confidence)
             else if fge prev_fast prev_slow \<and> flt curr_fast curr_slow
             then Inr (''SELL '' @ em_dash @ '' SMA('' @ str_nat fast
                         @ '') crossed below SMA('' @ str_nat slow @ '')'',
                       confidence)
             else (let regime = (if fgt curr_fast curr_slow then ''above''
                                 else if flt curr_fast curr_slow then ''below''
                                 else ''equal'')
                   in Inr (''HOLD '' @ em_dash @ '' SMA('' @ str_nat fast @ '') is '' @ regime
                             @ '' SMA('' @ str_nat slow @ ''); no crossover'',
                           confidence))))"

text \<open>Lines 192 and 193 of the dashboard: \<open>compute_smas\<close>, then
  \<open>latest_signal_reason\<close> on the frame it returns.\<close>

definition dashboard_signal ::
    "dataframe \<Rightarrow> nat \<Rightarrow> nat \<Rightarrow> py_error + (string \<times> string \<times> pyfloat)" where
  "dashboard_signal df fast slow =
     (case compute_smas df fast slow of
        Inl e \<Rightarrow> Inl e
      | Inr df \<Rightarrow> latest_signal_reason df fast slow)"







section \<open>One cycle of the trading loop (main.py)\<close>

text \<open>The configuration constants of main.py.\<close>

definition QTY :: int where
  "QTY = 1000"

definition FAST :: nat where
  "FAST = 10"

definition SLOW :: nat where
  "SLOW = 20"

definition DRY_RUN :: bool where
  "DRY_RUN = False"

text \<open>
  What \<open>api.get_position(symbol)\<close> gives: \<open>Inl e\<close> when the call raises (the
  brokerage has no position for the symbol, or the request fails), \<open>Inr None\<close> when
  it returns a position whose \<open>qty\<close> is not the text of a finite number, so that
  \<open>int(float(pos.qty))\<close> raises, and \<open>Inr (Some q)\<close> when \<open>float(pos.qty)\<close>
  is \<open>q\<close>.
\<close>

datatype api_error = APIError | ConnectionError

type_synonym position_reply = "api_error + real option"

text \<open>Python's \<open>int(x)\<close> on a float rounds towards zero.\<close>

definition py_int :: "real \<Rightarrow> int" where
  "py_int x = (if 0 \<le> x then \<lfloor>x\<rfloor> else \<lceil>x\<rceil>)"

definition position_qty :: "position_reply \<Rightarrow> int" where
  "position_qty reply =
     (case reply of
        Inl e \<Rightarrow> 0
      | Inr None \<Rightarrow> 0
      | Inr (Some q) \<Rightarrow> py_int q)"

definition should_buy :: "string option \<Rightarrow> int \<Rightarrow> bool" where
  "should_buy signal qty_now = (signal = Some ''buy'' \<and> qty_now \<le> 0)"

definition should_sell :: "string option \<Rightarrow> int \<Rightarrow> bool" where
  "should_sell signal qty_now = (signal = Some ''sell'' \<and> qty_now > 0)"

text \<open>
  How a cycle ends: one of the three \<open>continue\<close> statements that skip trading (user
  pause, guardrail, no signal), the \<open>continue\<close> after printing the action when it is
  HOLD or the run is dry, a call \<open>place_and_log(api, side, qty, reason, confidence)\<close>,
  or an exception that the loop catches and prints.
\<close>

datatype outcome =
    UserPauseSkip
  | GuardrailSkip
  | NoSignalSkip
  | NoOrder string
  | PlaceOrder string int string pyfloat
  | Failed py_error

text \<open>The order a cycle submits to the brokerage: its side and quantity, if any.\<close>

fun submitted :: "outcome \<Rightarrow> (string \<times> int) option" where
  "submitted (PlaceOrder side qty reason confidence) = Some (side, qty)"
| "submitted _ = None"

text \<open>Lines 221 to 248 of \<open>loop\<close>: from the pause checks to the order.\<close>

definition loop_resolve ::
    "bool \<Rightarrow> bool \<Rightarrow> bool \<Rightarrow> string option \<Rightarrow> position_reply \<Rightarrow> string \<Rightarrow> pyfloat
       \<Rightarrow> outcome" where
  "loop_resolve dry_run user_pause paused signal reply reason confidence =
     (if user_pause then UserPauseSkip
      else if paused then GuardrailSkip
      else
        (let qty_now = position_qty reply;
             buy = should_buy signal qty_now;
             sell = should_sell signal qty_now
         in if signal = None then NoSignalSkip
            else
              (let action = (if buy then ''BUY'' else if sell then ''SELL'' else ''HOLD'')
               in if dry_run \<or> action = ''HOLD'' then NoOrder action
                  else if buy then PlaceOrder ''buy'' QTY reason confidence
                  else if sell then PlaceOrder ''sell'' qty_now reason confidence
                  else NoOrder action)))"

text \<open>
  Lines 199 to 248 of \<open>loop\<close>, one pass of the \<open>while\<close> body, given what the
  brokerage returns in this cycle: the account's equity, the price bars as a data frame
  and the reply to the position query. The risk file is threaded through. An exception
  raised while the signal is computed is caught by the loop's handler, which prints it.
\<close>

definition loop_body ::
    "bool \<Rightarrow> real \<Rightarrow> nat \<Rightarrow> nat \<Rightarrow> real \<Rightarrow> dataframe \<Rightarrow> position_reply \<Rightarrow> risk_file
       \<Rightarrow> outcome \<times> risk_file" where
  "loop_body dry_run max_dd_pct fast slow equity bars reply file =
     (let ((paused, dd_pct, peak), file) =
            update_drawdown_and_guardrail max_dd_pct equity file
      in case column bars ''close'' of Inl e \<Rightarrow> (Failed e, file) | Inr cl \<Rightarrow>
         let df = bars(''sma_'' @ str_nat fast \<mapsto> rolling_mean fast cl);
             df = df(''sma_'' @ str_nat slow \<mapsto> rolling_mean slow cl)
         in case sma_cross_signal df fast slow of Inl e \<Rightarrow> (Failed e, file) | Inr signal \<Rightarrow>
            case describe_sma_signal df fast slow of Inl e \<Rightarrow> (Failed e, file)
            | Inr (reason, confidence) \<Rightarrow>
                (loop_resolve dry_run (is_user_paused file) paused signal reply
                   reason confidence, file))"

section \<open>The guardrail: proofs\<close>

lemma peak_after_observe:
  "peak_equity (load_risk_state (snd (update_drawdown_and_guardrail thr e file))) =
     Some (case peak_equity (load_risk_state file) of
             None \<Rightarrow> e | Some p \<Rightarrow> if e > p then e else p)"
  by (simp add: update_drawdown_and_guardrail_def Let_def load_risk_state_def
      save_risk_state_def split: option.splits)

lemma paused_after_observe:
  "auto_paused (load_risk_state (snd (update_drawdown_and_guardrail thr e file))) =
     fst (fst (update_drawdown_and_guardrail thr e file))"
  by (simp add: update_drawdown_and_guardrail_def Let_def load_risk_state_def
      save_risk_state_def split: option.splits)


lemma peak_le_observe:
  "peak_le (peak_equity (load_risk_state file))
     (peak_equity (load_risk_state (snd (update_drawdown_and_guardrail thr e file))))"
  by (cases "peak_equity (load_risk_state file)") (simp_all add: peak_after_observe)






lemma negative_peak_step:
  assumes "snd (snd (fst (update_drawdown_and_guardrail thr e file))) < 0"
  shows "fst (snd (fst (update_drawdown_and_guardrail thr e file))) = 0"
    and "0 < thr \<Longrightarrow> fst (fst (update_drawdown_and_guardrail thr e file)) =
           auto_paused (load_risk_state file)"
proof -
  let ?p = "case peak_equity (load_risk_state file) of
              None \<Rightarrow> e | Some p \<Rightarrow> if e > p then e else p"
  have pk: "snd (snd (fst (update_drawdown_and_guardrail thr e file))) = ?p"
    by (simp add: update_drawdown_and_guardrail_def Let_def)
  have neg: "?p < 0" using assms pk by simp
  have ge: "e \<le> ?p" by (simp split: option.splits)
  have "(?p - e) / ?p \<le> 0"
    using neg ge by (simp add: divide_le_0_iff)
  then have m: "max 0 ((?p - e) / ?p) = 0" by simp
  have dd: "fst (snd (fst (update_drawdown_and_guardrail thr e file))) =
              (if ?p = 0 then 0 else max 0 ((?p - e) / ?p))"
    by (simp add: update_drawdown_and_guardrail_def Let_def)
  show z: "fst (snd (fst (update_drawdown_and_guardrail thr e file))) = 0"
    using dd m by simp
  have ap: "fst (fst (update_drawdown_and_guardrail thr e file)) =
              (if fst (snd (fst (update_drawdown_and_guardrail thr e file))) \<ge> thr then True
               else auto_paused (load_risk_state file))"
    by (simp add: update_drawdown_and_guardrail_def Let_def)
  show "0 < thr \<Longrightarrow> fst (fst (update_drawdown_and_guardrail thr e file)) =
           auto_paused (load_risk_state file)"
    using ap z by simp
qed

lemma negative_run:
  "0 < thr \<Longrightarrow> list_all (\<lambda>e. e < 0) es \<Longrightarrow>
   negative_or_absent (peak_equity (load_risk_state file)) \<Longrightarrow>
     auto_paused (load_risk_state (observe_all thr es file)) =
       auto_paused (load_risk_state file)"
proof (induction es arbitrary: "file")
  case Nil
  then show ?case by simp
next
  case (Cons e es)
  let ?f = "snd (update_drawdown_and_guardrail thr e file)"
  have e: "e < 0" and rest: "list_all (\<lambda>e. e < 0) es" using Cons.prems by simp_all
  have pk: "peak_equity (load_risk_state ?f) =
              Some (snd (snd (fst (update_drawdown_and_guardrail thr e file))))"
    by (simp add: update_drawdown_and_guardrail_def Let_def load_risk_state_def
        save_risk_state_def)
  have neg: "snd (snd (fst (update_drawdown_and_guardrail thr e file))) < 0"
    using e Cons.prems(3)
    by (simp add: update_drawdown_and_guardrail_def Let_def negative_or_absent_def
        split: option.splits)
  have "auto_paused (load_risk_state ?f) = auto_paused (load_risk_state file)"
    using negative_peak_step(2) [OF neg Cons.prems(1)] by (simp add: paused_after_observe)
  moreover have "negative_or_absent (peak_equity (load_risk_state ?f))"
    using pk neg by (simp add: negative_or_absent_def)
  ultimately show ?case using Cons.IH [OF Cons.prems(1) rest] by simp
qed

text \<open>
  Claim C2. For every call \<open>observe(equity)\<close> on a risk state with peak \<open>p\<close>, the
  returned triple is \<open>(auto_paused, dd, peak')\<close> with \<open>peak' = equity\<close> if \<open>p\<close> is
  absent or \<open>equity > p\<close> and \<open>peak' = p\<close> otherwise, \<open>dd = 0\<close> if \<open>peak' = 0\<close>
  and \<open>dd = max(0, (peak' - equity) / peak')\<close> otherwise; \<open>auto_paused\<close> is the
  stored flag or \<open>dd \<ge> threshold\<close>, so it is true whenever \<open>dd\<close> reaches the
  threshold; the file then holds the state with \<open>peak'\<close>, the equity and the flag.
  With peak 10000 and threshold 0.05, \<open>observe(9400)\<close> returns \<open>dd = 0.06\<close> and
  \<open>auto_paused = True\<close>.
\<close>

theorem observe_contract:
  "update_drawdown_and_guardrail thr e file =
     (let s = load_risk_state file;
          p = peak_equity s;
          peak' = (if p = None \<or> e > the p then e else the p);
          dd = (if peak' = 0 then 0 else max 0 ((peak' - e) / peak'));
          paused = (auto_paused s \<or> dd \<ge> thr)
      in ((paused, dd, peak'),
          Some (s\<lparr>peak_equity := Some peak', last_equity := Some e, auto_paused := paused\<rparr>)))
   \<and> (thr \<le> fst (snd (fst (update_drawdown_and_guardrail thr e file)))
        \<longrightarrow> fst (fst (update_drawdown_and_guardrail thr e file)))
   \<and> (peak_equity (load_risk_state file) = Some 10000
        \<longrightarrow> fst (update_drawdown_and_guardrail 0.05 9400 file) = (True, 0.06, 10000))"
  by (auto simp: update_drawdown_and_guardrail_def Let_def save_risk_state_def
      split: option.splits)

theorem observe_contract_witness:
  "update_drawdown_and_guardrail MAX_DD_PCT 9400
     (Some \<lparr>peak_equity = Some 10000, auto_paused = False, last_equity = Some 10000,
            user_paused = False\<rparr>) =
     ((True, 0.06, 10000),
      Some \<lparr>peak_equity = Some 10000, auto_paused = True, last_equity = Some 9400,
            user_paused = False\<rparr>)"
  using observe_contract [of MAX_DD_PCT 9400
     "Some \<lparr>peak_equity = Some 10000, auto_paused = False, last_equity = Some 10000,
            user_paused = False\<rparr>"]
  by (simp add: load_risk_state_def MAX_DD_PCT_def Let_def)



text \<open>
  Claim C4. Along any sequence of \<open>observe\<close> calls from any risk file, the persisted
  \<open>peak_equity\<close> after call \<open>k + 1\<close> is at least the one after call \<open>k\<close> (entry
  0 of the trace is the file before the first call), an absent peak counting as below
  every number.
\<close>

theorem peak_monotone:
  "k < length es \<Longrightarrow>
     peak_le (peak_equity (load_risk_state (observe_trace thr es file ! k)))
             (peak_equity (load_risk_state (observe_trace thr es file ! Suc k)))"
proof (induction es arbitrary: "file" k)
  case Nil
  then show ?case by simp
next
  case (Cons e es)
  show ?case
  proof (cases k)
    case 0
    have "observe_trace thr es (snd (update_drawdown_and_guardrail thr e file)) ! 0 =
            snd (update_drawdown_and_guardrail thr e file)"
      by (cases es) simp_all
    then show ?thesis using 0 by (simp add: peak_le_observe)
  next
    case (Suc j)
    then have "j < length es" using Cons.prems by simp
    then show ?thesis using Suc Cons.IH by simp
  qed
qed

theorem peak_monotone_witness:
  "(1::nat) < length [10000, 9400, 10200 :: real] \<and>
   peak_equity (load_risk_state (observe_trace MAX_DD_PCT [10000, 9400, 10200] None ! 0))
     = None \<and>
   peak_equity (load_risk_state (observe_trace MAX_DD_PCT [10000, 9400, 10200] None ! 1))
     = Some 10000 \<and>
   peak_equity (load_risk_state (observe_trace MAX_DD_PCT [10000, 9400, 10200] None ! 2))
     = Some 10000 \<and>
   peak_le (peak_equity (load_risk_state (observe_trace MAX_DD_PCT [10000, 9400, 10200] None ! 1)))
     (peak_equity (load_risk_state (observe_trace MAX_DD_PCT [10000, 9400, 10200] None ! Suc 1)))"
  using peak_monotone [of 1 "[10000, 9400, 10200]" MAX_DD_PCT None]
  by (simp add: update_drawdown_and_guardrail_def Let_def load_risk_state_def
      save_risk_state_def default_risk_state_def MAX_DD_PCT_def)

text \<open>
  Claim C8. Calling \<open>observe(e)\<close> twice in a row with the same equity returns the same
  triple \<open>(auto_paused, dd, peak)\<close> both times, and the file after the second call is
  the file after the first.
\<close>

theorem observe_twice_same:
  "update_drawdown_and_guardrail thr e
       (snd (update_drawdown_and_guardrail thr e file)) =
     (fst (update_drawdown_and_guardrail thr e file),
      snd (update_drawdown_and_guardrail thr e file))"
  by (cases "file")
     (auto simp: update_drawdown_and_guardrail_def Let_def load_risk_state_def
        save_risk_state_def default_risk_state_def split: option.splits)

text \<open>
  Claim C10. Whenever the updated peak of an \<open>observe\<close> call is strictly negative, the
  returned drawdown is 0, and for a positive threshold the returned \<open>auto_paused\<close> is
  the flag that was stored before the call. So from a file whose peak is absent or
  negative, a sequence of negative equities never changes \<open>auto_paused\<close> when the
  threshold is positive.
\<close>

theorem negative_peak_never_trips:
  "(snd (snd (fst (update_drawdown_and_guardrail thr e file))) < 0 \<longrightarrow>
      fst (snd (fst (update_drawdown_and_guardrail thr e file))) = 0
      \<and> (0 < thr \<longrightarrow> fst (fst (update_drawdown_and_guardrail thr e file)) =
                        auto_paused (load_risk_state file)))
   \<and> (0 < thr \<and> list_all (\<lambda>e. e < 0) es
        \<and> negative_or_absent (peak_equity (load_risk_state file)) \<longrightarrow>
      auto_paused (load_risk_state (observe_all thr es file)) =
        auto_paused (load_risk_state file))"
  using negative_peak_step [of thr e "file"] negative_run [of thr es "file"] by blast

theorem negative_peak_never_trips_witness:
  "snd (snd (fst (update_drawdown_and_guardrail MAX_DD_PCT (- 200)
       (Some \<lparr>peak_equity = Some (- 100), auto_paused = False, last_equity = None,
              user_paused = False\<rparr>)))) = - 100
   \<and> fst (snd (fst (update_drawdown_and_guardrail MAX_DD_PCT (- 200)
       (Some \<lparr>peak_equity = Some (- 100), auto_paused = False, last_equity = None,
              user_paused = False\<rparr>)))) = 0
   \<and> \<not> fst (fst (update_drawdown_and_guardrail MAX_DD_PCT (- 200)
       (Some \<lparr>peak_equity = Some (- 100), auto_paused = False, last_equity = None,
              user_paused = False\<rparr>)))
   \<and> \<not> auto_paused (load_risk_state (observe_all MAX_DD_PCT [- 200, - 50, - 300]
       (Some \<lparr>peak_equity = Some (- 100), auto_paused = False, last_equity = None,
              user_paused = False\<rparr>)))"
proof -
  let ?f = "Some \<lparr>peak_equity = Some (- 100), auto_paused = False, last_equity = None,
                  user_paused = False\<rparr>"
  have pk: "snd (snd (fst (update_drawdown_and_guardrail MAX_DD_PCT (- 200) ?f))) = - 100"
    by (simp add: update_drawdown_and_guardrail_def Let_def load_risk_state_def)
  have thr: "0 < MAX_DD_PCT" by (simp add: MAX_DD_PCT_def)
  have neg: "list_all (\<lambda>e. e < 0) [- 200, - 50, - 300 :: real]" by simp
  have st: "negative_or_absent (peak_equity (load_risk_state ?f))"
    by (simp add: negative_or_absent_def load_risk_state_def)
  have off: "\<not> auto_paused (load_risk_state ?f)" by (simp add: load_risk_state_def)
  show ?thesis
    using negative_peak_never_trips [of MAX_DD_PCT "- 200" ?f "[- 200, - 50, - 300]"]
      pk thr neg st off by simp
qed

section \<open>The detector: proofs\<close>

lemma digit_char_inj:
  "a < 10 \<Longrightarrow> b < 10 \<Longrightarrow> digit_char a = digit_char b \<Longrightarrow> a = b"
proof -
  assume a: "a < 10" and b: "b < 10" and eq: "digit_char a = digit_char b"
  have d: "distinct ''0123456789''" by simp
  have l: "length ''0123456789'' = 10" by simp
  show "a = b"
    using d a b eq l unfolding digit_char_def
    by (metis nth_eq_iff_index_eq)
qed

lemma str_nat_nonempty: "str_nat n \<noteq> []"
  by (subst str_nat.simps) simp

lemma str_nat_inj: "str_nat a = str_nat b \<Longrightarrow> a = b"
proof (induction a arbitrary: b rule: str_nat.induct)
  case (1 n)
  show ?case
  proof (cases "n < 10")
    case small: True
    show ?thesis
    proof (cases "b < 10")
      case True
      then show ?thesis
        using small "1.prems" digit_char_inj [of n b]
        by (simp add: str_nat.simps [of n] str_nat.simps [of b])
    next
      case False
      then have "str_nat b = str_nat (b div 10) @ [digit_char (b mod 10)]"
        by (simp add: str_nat.simps [of b])
      moreover have "str_nat n = [digit_char n]"
        using small by (simp add: str_nat.simps [of n])
      ultimately show ?thesis
        using "1.prems" str_nat_nonempty [of "b div 10"] by simp
    qed
  next
    case big: False
    then have n: "str_nat n = str_nat (n div 10) @ [digit_char (n mod 10)]"
      by (simp add: str_nat.simps [of n])
    show ?thesis
    proof (cases "b < 10")
      case True
      then have "str_nat b = [digit_char b]"
        by (simp add: str_nat.simps [of b])
      then show ?thesis
        using n "1.prems" str_nat_nonempty [of "n div 10"] by simp
    next
      case False
      then have b: "str_nat b = str_nat (b div 10) @ [digit_char (b mod 10)]"
        by (simp add: str_nat.simps [of b])
      from n b "1.prems" have hd: "str_nat (n div 10) = str_nat (b div 10)"
        and tl: "digit_char (n mod 10) = digit_char (b mod 10)"
        by simp_all
      from "1.IH" [OF big hd] have q: "n div 10 = b div 10" .
      from tl have r: "n mod 10 = b mod 10"
        by (intro digit_char_inj) simp_all
      from q r show ?thesis
        by (metis div_mult_mod_eq)
    qed
  qed
qed

lemma iloc_last: "xs \<noteq> [] \<Longrightarrow> iloc xs (- 1) = Inr (xs ! (length xs - 1))"
  by (cases xs) (simp_all add: iloc_def Let_def nat_diff_distrib)


lemma length_rolling_mean [simp]: "length (rolling_mean w xs) = length xs"
  by (simp add: rolling_mean_def)

lemma nth_rolling_mean: "i < length xs \<Longrightarrow> rolling_mean w xs ! i = window_mean w xs i"
  by (simp add: rolling_mean_def)

text \<open>On finite closes the moving average is the arithmetic mean of the last \<open>w\<close>
  closes, and it is defined at the last bar exactly when the window is positive and no
  longer than the series.\<close>

lemma window_mean_finite:
  "0 < w \<Longrightarrow> w \<le> i + 1 \<Longrightarrow>
     window_mean w (map Some closes) i =
       Some (sum_list (take w (drop (i + 1 - w) closes)) / real w)"
  by (simp add: window_mean_def Let_def take_map drop_map list_all_iff isna_def o_def)

lemma slow_defined_iff_warm:
  assumes "closes \<noteq> []"
  shows "isna (window_mean slow (map Some closes) (length closes - 1)) \<longleftrightarrow>
           slow = 0 \<or> length closes < slow"
proof (cases "0 < slow \<and> slow \<le> length closes")
  case True
  then have "slow \<le> length closes - 1 + 1" using assms by simp
  with True have "window_mean slow (map Some closes) (length closes - 1) \<noteq> None"
    by (simp add: window_mean_finite)
  with True show ?thesis by (simp add: isna_def)
next
  case False
  with assms show ?thesis by (auto simp: window_mean_def isna_def)
qed



lemma compute_smas_cols:
  assumes "df ''close'' = Some cl"
  shows "\<exists>d. compute_smas df fast slow = Inr d
           \<and> d (''SMA'' @ str_nat slow) = Some (rolling_mean slow cl)
           \<and> d (''SMA'' @ str_nat fast) = Some (rolling_mean fast cl)"
  using assms by (auto simp: compute_smas_def column_def dest: str_nat_inj)



lemma window_mean_needs_history:
  "cl \<noteq> [] \<Longrightarrow> length cl < slow \<Longrightarrow> isna (window_mean slow cl (length cl - 1))"
  by (simp add: window_mean_def isna_def)



text \<open>
  Claim C7, as the code has it. For every price series with at least one bar whose slow
  moving average is not defined at the last position, and so for every such series
  shorter than the slow window, the detectors return no signal, \<open>"Not enough data"\<close>
  and confidence 0, and raise no error.
\<close>

theorem not_enough_data:
  assumes close: "df ''close'' = Some cl"
    and nonempty: "cl \<noteq> []"
    and short: "length cl < slow \<or> isna (window_mean slow cl (length cl - 1))"
  shows "sma_cross_signal df fast slow = Inr None
       \<and> dashboard_signal df fast slow = Inr (''none'', ''Not enough data'', Some 0)
       \<and> describe_sma_signal
           (df(''sma_'' @ str_nat fast \<mapsto> rolling_mean fast cl,
               ''sma_'' @ str_nat slow \<mapsto> rolling_mean slow cl)) fast slow =
           Inr (''Not enough data'', Some 0)"
proof -
  let ?sc = "rolling_mean slow cl"
  have na: "isna (window_mean slow cl (length cl - 1))"
    using short window_mean_needs_history [OF nonempty] by blast
  have ne: "?sc \<noteq> []" using nonempty by (simp add: rolling_mean_def)
  have "length cl - 1 < length cl" using nonempty by simp
  then have last: "?sc ! (length ?sc - 1) = window_mean slow cl (length cl - 1)"
    by (simp add: nth_rolling_mean)
  have a: "sma_cross_signal df fast slow = Inr None"
    using close na last
    by (simp add: sma_cross_signal_def column_def Let_def iloc_last [OF ne])
  obtain d where d: "compute_smas df fast slow = Inr d"
      "d (''SMA'' @ str_nat slow) = Some ?sc"
    using compute_smas_cols [where df = df and cl = cl and fast = fast and slow = slow] close
    by blast
  have "latest_signal_reason d fast slow = Inr (''none'', ''Not enough data'', Some 0)"
    using d(2) na last
    by (simp add: latest_signal_reason_def column_def Let_def iloc_last [OF ne])
  then have b: "dashboard_signal df fast slow = Inr (''none'', ''Not enough data'', Some 0)"
    using d(1) by (simp add: dashboard_signal_def)
  have c: "describe_sma_signal
           (df(''sma_'' @ str_nat fast \<mapsto> rolling_mean fast cl,
               ''sma_'' @ str_nat slow \<mapsto> rolling_mean slow cl)) fast slow =
           Inr (''Not enough data'', Some 0)"
    using na last
    by (simp add: describe_sma_signal_def column_def Let_def iloc_last [OF ne])
  from a b c show ?thesis by blast
qed

theorem not_enough_data_witness:
  "map Some [1, 2, 3 :: real] \<noteq> []
   \<and> length (map Some [1, 2, 3 :: real]) < 4
   \<and> sma_cross_signal [''close'' \<mapsto> map Some [1, 2, 3]] 2 4 = Inr None
   \<and> dashboard_signal [''close'' \<mapsto> map Some [1, 2, 3]] 2 4 =
       Inr (''none'', ''Not enough data'', Some 0)"
proof -
  let ?cl = "map Some [1, 2, 3 :: real]"
  let ?df = "[''close'' \<mapsto> ?cl]"
  have c: "?df ''close'' = Some ?cl" by simp
  have ne: "?cl \<noteq> []" by simp
  have short: "length ?cl < 4 \<or> isna (window_mean 4 ?cl (length ?cl - 1))" by simp
  show ?thesis
    using not_enough_data [where df = ?df and cl = ?cl and fast = 2 and slow = 4,
        OF c ne short]
    by simp
qed

text \<open>
  Claim C7 as stated fails for a series with exactly one position at which the slow
  average is defined: four bars and a slow window of 4. The guard looks at the last
  position only, the comparisons with the missing previous average are false, and the
  detectors return HOLD with confidence 0.4.
\<close>

theorem one_defined_position_counterexample:
  "rolling_mean 4 (map Some [1, 2, 3, 4]) = [None, None, None, Some (5 / 2)]
   \<and> sma_cross_signal [''close'' \<mapsto> map Some [1, 2, 3, 4]] 2 4 = Inr (Some ''hold'')
   \<and> dashboard_signal [''close'' \<mapsto> map Some [1, 2, 3, 4]] 2 4 =
       Inr (''none'', ''HOLD '' @ em_dash @ '' SMA(2) is above SMA(4); no crossover'',
            Some (2 / 5))"
  by code_simp


text \<open>
  Outside the two theorems above: a frame with no bars makes both detectors raise
  IndexError at \<open>iloc[-1]\<close>, and a single bar with a slow window of 1 passes the guard
  and raises at \<open>iloc[-2]\<close>. The data model rules out the first; no caller can
  configure the second (the loop uses windows 10 and 20, the dashboard's inputs start at
  2 and 3).
\<close>

lemma detector_raises_on_empty_series:
  "sma_cross_signal [''close'' \<mapsto> []] fast slow = Inl IndexError
   \<and> dashboard_signal [''close'' \<mapsto> []] fast slow = Inl IndexError"
  by (auto simp: sma_cross_signal_def dashboard_signal_def compute_smas_def
      latest_signal_reason_def column_def rolling_mean_def iloc_def Let_def)

lemma detector_raises_on_single_bar:
  "sma_cross_signal [''close'' \<mapsto> [Some 5]] 1 1 = Inl IndexError
   \<and> dashboard_signal [''close'' \<mapsto> [Some 5]] 1 1 = Inl IndexError"
  by code_simp

section \<open>The trading loop: proofs\<close>

text \<open>
  Claim C5. Whatever the signal and the position: with the manual pause on, the cycle
  is skipped at the user-pause check; otherwise, with \<open>auto_paused\<close> true, it is
  skipped at the guardrail check; otherwise, with no signal, it is skipped at the signal
  check. A skipped cycle computes no BUY or SELL and submits no order, which is how the
  loop holds. The same is true of the whole loop body: when the file has the manual pause
  on or \<open>observe\<close> returns \<open>auto_paused\<close>, no order is submitted.
\<close>

theorem pause_forces_hold:
  "(user_pause \<longrightarrow>
      loop_resolve dry_run user_pause paused signal reply reason confidence = UserPauseSkip)
   \<and> (\<not> user_pause \<and> paused \<longrightarrow>
      loop_resolve dry_run user_pause paused signal reply reason confidence = GuardrailSkip)
   \<and> (\<not> user_pause \<and> \<not> paused \<and> signal = None \<longrightarrow>
      loop_resolve dry_run user_pause paused signal reply reason confidence = NoSignalSkip)
   \<and> (user_pause \<or> paused \<or> signal = None \<longrightarrow>
      submitted (loop_resolve dry_run user_pause paused signal reply reason confidence) = None)
   \<and> (is_user_paused file \<or> fst (fst (update_drawdown_and_guardrail max_dd_pct equity file)) \<longrightarrow>
      submitted (fst (loop_body dry_run max_dd_pct fast slow equity bars reply file)) = None)"
proof -
  have u: "is_user_paused (snd (update_drawdown_and_guardrail max_dd_pct equity file)) =
             is_user_paused file"
    by (simp add: is_user_paused_def update_drawdown_and_guardrail_def Let_def
        load_risk_state_def save_risk_state_def split: option.splits)
  have body: "is_user_paused file \<or> fst (fst (update_drawdown_and_guardrail max_dd_pct equity file)) \<longrightarrow>
      submitted (fst (loop_body dry_run max_dd_pct fast slow equity bars reply file)) = None"
    using u
    by (auto simp: loop_body_def loop_resolve_def Let_def split: prod.splits sum.splits)
  show ?thesis using body by (simp add: loop_resolve_def Let_def)
qed

theorem pause_forces_hold_witness:
  "loop_resolve DRY_RUN True False (Some ''sell'') (Inr (Some 100)) ''r'' (Some 0) = UserPauseSkip
   \<and> submitted (loop_resolve DRY_RUN True False (Some ''sell'') (Inr (Some 100)) ''r'' (Some 0))
       = None
   \<and> loop_resolve DRY_RUN False True (Some ''sell'') (Inr (Some 100)) ''r'' (Some 0) = GuardrailSkip
   \<and> loop_resolve DRY_RUN False False None (Inr (Some 100)) ''r'' (Some 0) = NoSignalSkip"
  using pause_forces_hold [where user_pause = True and dry_run = DRY_RUN and paused = False
      and signal = "Some ''sell''" and reply = "Inr (Some 100)" and reason = "''r''"
      and confidence = "Some 0"]
    pause_forces_hold [where user_pause = False and dry_run = DRY_RUN and paused = True
      and signal = "Some ''sell''" and reply = "Inr (Some 100)" and reason = "''r''"
      and confidence = "Some 0"]
    pause_forces_hold [where user_pause = False and dry_run = DRY_RUN and paused = False
      and signal = None and reply = "Inr (Some 100)" and reason = "''r''"
      and confidence = "Some 0"]
  by simp

text \<open>
  Claim C6. For every signal and position quantity, \<open>should_buy\<close> and
  \<open>should_sell\<close> are never both true.
\<close>

theorem buy_sell_exclusive:
  "\<not> (should_buy signal qty_now \<and> should_sell signal qty_now)"
  by (simp add: should_buy_def should_sell_def)

text \<open>
  Claim C9. \<open>position_qty\<close> returns 0 when the position query raises and when the
  quantity it returns cannot be read as a number, as it does for a flat position. The
  rest of the cycle sees the quantity only, so it ends the same way after a failed query
  as with a flat position; with a buy signal and no pause it places the buy order. The
  last part runs a whole cycle on six bars that cross upwards while the position query
  raises: the order is placed.
\<close>

theorem failed_position_reads_as_flat:
  "position_qty (Inl err) = 0 \<and> position_qty (Inr None) = 0
   \<and> position_qty (Inr (Some 0)) = 0
   \<and> loop_resolve dry_run user_pause paused signal (Inl err) reason confidence =
       loop_resolve dry_run user_pause paused signal (Inr (Some 0)) reason confidence
   \<and> loop_resolve dry_run user_pause paused signal (Inr None) reason confidence =
       loop_resolve dry_run user_pause paused signal (Inr (Some 0)) reason confidence
   \<and> loop_resolve DRY_RUN False False (Some ''buy'') (Inl err) reason confidence =
       PlaceOrder ''buy'' QTY reason confidence
   \<and> fst (loop_body DRY_RUN MAX_DD_PCT 2 4 10000
            [''close'' \<mapsto> map Some [4, 3, 2, 1, 1, 6]] (Inl APIError) None) =
       PlaceOrder ''buy'' 1000 (''BUY '' @ em_dash @ '' SMA(2) crossed above SMA(4)'')
         (Some (2 / 5))"
proof -
  have "fst (loop_body DRY_RUN MAX_DD_PCT 2 4 10000
            [''close'' \<mapsto> map Some [4, 3, 2, 1, 1, 6]] (Inl APIError) None) =
       PlaceOrder ''buy'' 1000 (''BUY '' @ em_dash @ '' SMA(2) crossed above SMA(4)'')
         (Some (2 / 5))"
    by code_simp
  then show ?thesis
    by (simp add: position_qty_def py_int_def loop_resolve_def Let_def should_buy_def
        should_sell_def DRY_RUN_def)
qed

end
